theory Spec2Isabelle
  imports Main "HOL-Library.Word"
begin

section \<open>Go values shared by both files\<close>

text \<open>
  A Go call either returns or panics. A panic (a slice expression out of range, a method
  called through a nil pointer or a nil interface) is a result of its own, so that every
  run-time failure of the source is a branch of the model.
\<close>

datatype 'a outcome = Panic | Return 'a

text \<open>
  Addition of two Go \<^verbatim>\<open>int\<close> values on a 64-bit target: the sum is reduced into the
  signed 64-bit range, as the machine does without any check.
\<close>

definition add_int :: "int \<Rightarrow> int \<Rightarrow> int" where
  "add_int a b = sint (word_of_int (a + b) :: 64 word)"

section \<open>aws/fetch/helpers.go\<close>

subsection \<open>Slice expressions\<close>

text \<open>
  \<^verbatim>\<open>in[lo:hi]\<close> and \<^verbatim>\<open>in[lo:]\<close> on a slice read as the list of its elements. Go panics
  unless \<open>0 \<le> lo \<le> hi \<le> cap\<close> (two-index form) and \<open>0 \<le> lo \<le> len\<close> (one-index form). The
  capacity is taken as the length: the only two-index expression of the file is evaluated
  with \<open>hi < len\<close>, where the two bounds agree.
\<close>

definition slice_lo_hi :: "'a list \<Rightarrow> int \<Rightarrow> int \<Rightarrow> 'a list outcome" where
  "slice_lo_hi xs lo hi =
     (if 0 \<le> lo \<and> lo \<le> hi \<and> hi \<le> int (length xs)
      then Return (take (nat (hi - lo)) (drop (nat lo) xs)) else Panic)"

definition slice_lo :: "'a list \<Rightarrow> int \<Rightarrow> 'a list outcome" where
  "slice_lo xs lo =
     (if 0 \<le> lo \<and> lo \<le> int (length xs) then Return (drop (nat lo) xs) else Panic)"

subsection \<open>sliceOfSlice\<close>

text \<open>
  \<^verbatim>\<open>for i := 0; i < len(in); i += maxLength { ... }\<close>: the loop of sliceOfSlice, with the
  index \<open>i\<close> and the result built so far as arguments. The loop as written does not stop
  for every step (a step of zero never advances), so it is a partial function:
  \<open>None\<close> is a run that never returns, \<open>Some Panic\<close> a run stopped by a slice expression
  out of range.
\<close>

partial_function (option) sliceOfSlice_loop ::
  "'a list \<Rightarrow> int \<Rightarrow> int \<Rightarrow> 'a list list \<Rightarrow> 'a list list outcome option" where
  "sliceOfSlice_loop xs maxLength i res =
     (if i < int (length xs) then
        (if add_int i maxLength < int (length xs) then
           (case slice_lo_hi xs i (add_int i maxLength) of
              Panic \<Rightarrow> Some Panic
            | Return chunk \<Rightarrow>
                sliceOfSlice_loop xs maxLength (add_int i maxLength) (res @ [chunk]))
         else
           (case slice_lo xs i of
              Panic \<Rightarrow> Some Panic
            | Return chunk \<Rightarrow>
                sliceOfSlice_loop xs maxLength (add_int i maxLength) (res @ [chunk])))
      else Some (Return res))"

declare sliceOfSlice_loop.simps [code]

text \<open>
  \<^verbatim>\<open>func sliceOfSlice(in []*string, maxLength int) (res [][]*string)\<close>. The elements are
  pointers the function never looks through, so their type is left open. The named result
  \<open>res\<close> starts out nil, which is the empty list.
\<close>

definition sliceOfSlice :: "'a list \<Rightarrow> 64 word \<Rightarrow> 'a list list outcome option" where
  "sliceOfSlice xs maxLength =
     (if sint maxLength \<le> 0 then Some (Return [])
      else if length xs = 0 then Some (Return [])
      else sliceOfSlice_loop xs (sint maxLength) 0 [])"

subsection \<open>pluralizeIfNeeded\<close>

text \<open>
  \<^verbatim>\<open>func pluralizeIfNeeded(str string, n uint) string\<close>.
  The count is a Go \<^verbatim>\<open>uint\<close>; it is only compared with 1, never computed with,
  so it is read as its value, a natural number.
\<close>

definition pluralizeIfNeeded :: "string \<Rightarrow> nat \<Rightarrow> string" where
  "pluralizeIfNeeded str n = (if n > 1 then str @ ''s'' else str)"

section \<open>plumbing/transport/ssh/common.go\<close>

subsection \<open>Values of the packages the file imports\<close>

text \<open>
  Modelled from the spec: the error values \<^verbatim>\<open>transport.ErrInvalidAuthMethod\<close> and
  \<^verbatim>\<open>transport.ErrAlreadyConnected\<close> are declared in package transport, which is not among
  the sources. They are two distinct error values ("invalid auth method", "already
  connected"); every other error a collaborator may return is an \<open>ErrOther\<close>.
\<close>

datatype error = ErrInvalidAuthMethod | ErrAlreadyConnected | ErrOther nat

text \<open>
  Modelled from the spec: \<^verbatim>\<open>transport.Endpoint\<close> is declared in package transport. The
  file reads it through \<^verbatim>\<open>Host()\<close>, \<^verbatim>\<open>Port()\<close>, \<^verbatim>\<open>User()\<close> and \<^verbatim>\<open>Path()\<close> only; an endpoint
  is immutable, so it is the record of what the four getters return. \<^verbatim>\<open>Port()\<close> is a Go
  \<^verbatim>\<open>int\<close> that is compared and printed, never computed with; an unset port is zero.
  An endpoint is a value that is there: a nil endpoint is not among the inputs.
\<close>

record Endpoint =
  Host :: string
  Port :: int
  User :: string
  Path :: string

text \<open>
  The values of package ssh are opaque references: an \<^verbatim>\<open>ssh.AuthMethod\<close> of this package
  (an interface with the unexported methods \<^verbatim>\<open>clientConfig\<close> and \<^verbatim>\<open>hostKeyCallback\<close>), a
  \<^verbatim>\<open>*ssh.Client\<close>, a \<^verbatim>\<open>*ssh.Session\<close> and a host key callback. A nil pointer or nil
  interface is \<open>None\<close> where a field or a result holds one.
\<close>

datatype AuthMethod = AuthMethodRef nat
datatype ssh_Client = ClientRef nat
datatype ssh_Session = SessionRef nat
datatype ssh_HostKeyCallback = HostKeyCallbackRef nat

text \<open>
  A \<^verbatim>\<open>transport.AuthMethod\<close> handed to \<^verbatim>\<open>Command\<close> either has a dynamic type that
  implements this package's AuthMethod interface, or it has not (an HTTP basic auth, say).
  The type assertion \<^verbatim>\<open>auth.(AuthMethod)\<close> tells the two apart.
\<close>

datatype transport_AuthMethod = IsAuthMethod AuthMethod | NotAuthMethod nat

text \<open>
  \<^verbatim>\<open>*ssh.ClientConfig\<close>: the configuration an AuthMethod builds, of which the file writes
  the field \<^verbatim>\<open>HostKeyCallback\<close>.
\<close>

record ssh_ClientConfig =
  ConfigRef :: nat
  HostKeyCallback :: "ssh_HostKeyCallback option"

subsection \<open>Observable actions\<close>

text \<open>
  What a session does to the world outside it, in the order it happens: every call of a
  collaborator with its arguments and what it returned, and every write of the
  \<^verbatim>\<open>connected\<close> flag. A Go result pair \<^verbatim>\<open>(value, error)\<close> is the pair of two options.
\<close>

datatype event =
    EvDefaultAuthBuilder string "AuthMethod option \<times> error option"
  | EvClientConfig AuthMethod "ssh_ClientConfig option"
  | EvHostKeyCallback AuthMethod "ssh_HostKeyCallback option \<times> error option"
  | EvDial string string ssh_ClientConfig "ssh_Client option \<times> error option"
  | EvNewSession ssh_Client "ssh_Session option \<times> error option"
  | EvSessionStart ssh_Session string "error option"
  | EvSessionClose ssh_Session "error option"
  | EvClientClose ssh_Client "error option"
  | EvStoreConnected bool

text \<open>
  The collaborators. Each one answers from its arguments and from everything that has
  happened so far, so nothing is assumed about them: \<open>DefaultAuthBuilder\<close> is the current
  value of the package variable of that name (initially \<^verbatim>\<open>NewSSHAgentAuth\<close>),
  \<open>clientConfig\<close> and \<open>hostKeyCallback\<close> are the two methods of an AuthMethod,
  \<open>Dial\<close> is \<^verbatim>\<open>ssh.Dial\<close>, and the remaining four are methods of
  \<^verbatim>\<open>*ssh.Client\<close> and \<^verbatim>\<open>*ssh.Session\<close>.
\<close>

record world =
  DefaultAuthBuilder :: "event list \<Rightarrow> string \<Rightarrow> AuthMethod option \<times> error option"
  clientConfig :: "event list \<Rightarrow> AuthMethod \<Rightarrow> ssh_ClientConfig option"
  hostKeyCallback ::
    "event list \<Rightarrow> AuthMethod \<Rightarrow> ssh_HostKeyCallback option \<times> error option"
  Dial ::
    "event list \<Rightarrow> string \<Rightarrow> string \<Rightarrow> ssh_ClientConfig \<Rightarrow> ssh_Client option \<times> error option"
  NewSession :: "event list \<Rightarrow> ssh_Client \<Rightarrow> ssh_Session option \<times> error option"
  Session_Start :: "event list \<Rightarrow> ssh_Session \<Rightarrow> string \<Rightarrow> error option"
  Session_Close :: "event list \<Rightarrow> ssh_Session \<Rightarrow> error option"
  Client_Close :: "event list \<Rightarrow> ssh_Client \<Rightarrow> error option"

definition isDefaultAuthBuilder :: "event \<Rightarrow> bool" where
  "isDefaultAuthBuilder ev = (case ev of EvDefaultAuthBuilder _ _ \<Rightarrow> True | _ \<Rightarrow> False)"

definition isAuthResolution :: "event \<Rightarrow> bool" where
  "isAuthResolution ev =
     (case ev of EvDefaultAuthBuilder _ _ \<Rightarrow> True | EvClientConfig _ _ \<Rightarrow> True
               | EvHostKeyCallback _ _ \<Rightarrow> True | _ \<Rightarrow> False)"

subsection \<open>Formatting\<close>

text \<open>
  \<^verbatim>\<open>fmt.Sprintf\<close> with the verb \<^verbatim>\<open>%d\<close> prints a Go \<^verbatim>\<open>int\<close> in decimal, most significant
  digit first, without leading zeros, and with a minus sign when negative; the verb
  \<^verbatim>\<open>%s\<close> copies a string as it is.
\<close>

definition digit :: "nat \<Rightarrow> char" where
  "digit d = ''0123456789'' ! d"

function decimal :: "nat \<Rightarrow> string" where
  "decimal n = (if n < 10 then [digit n] else decimal (n div 10) @ [digit (n mod 10)])"
  by pat_completeness auto
termination
  by (relation "measure id") auto

declare decimal.simps [simp del]

definition fmt_d :: "int \<Rightarrow> string" where
  "fmt_d i = (if i < 0 then CHR ''-'' # decimal (nat (- i)) else decimal (nat i))"

text \<open>Reading a decimal numeral back, to say what \<open>decimal\<close> prints.\<close>

definition digit_value :: "char \<Rightarrow> nat" where
  "digit_value ch = of_char ch - 48"

definition decimal_value :: "string \<Rightarrow> nat" where
  "decimal_value s = foldl (\<lambda>acc ch. 10 * acc + digit_value ch) 0 s"

definition quote :: char where
  "quote = CHR 0x27"

subsection \<open>The command session\<close>

definition DefaultPort :: int where
  "DefaultPort = 22"

text \<open>
  \<^verbatim>\<open>type command struct\<close>. The embedded \<^verbatim>\<open>*ssh.Session\<close> is the field \<open>Session\<close>.
\<close>

record command =
  Session :: "ssh_Session option"
  connected :: bool
  command :: string
  endpoint :: Endpoint
  client :: "ssh_Client option"
  auth :: "AuthMethod option"

text \<open>\<^verbatim>\<open>func (c *command) setAuth(auth transport.AuthMethod) error\<close>\<close>

definition setAuth :: "command \<Rightarrow> transport_AuthMethod \<Rightarrow> error option \<times> command" where
  "setAuth c a =
     (case a of
        NotAuthMethod _ \<Rightarrow> (Some ErrInvalidAuthMethod, c)
      | IsAuthMethod a' \<Rightarrow> (None, c\<lparr>auth := Some a'\<rparr>))"

text \<open>\<^verbatim>\<open>func endpointToCommand(cmd string, ep transport.Endpoint) string\<close>,
  the format \<^verbatim>\<open>"%s '%s'"\<close>.\<close>

definition endpointToCommand :: "string \<Rightarrow> Endpoint \<Rightarrow> string" where
  "endpointToCommand cmd ep = cmd @ '' '' @ [quote] @ Path ep @ [quote]"

text \<open>\<^verbatim>\<open>func (c *command) getHostWithPort() string\<close>, the format \<^verbatim>\<open>"%s:%d"\<close>.\<close>

definition getHostWithPort :: "command \<Rightarrow> string" where
  "getHostWithPort c =
     (let host = Host (endpoint c);
          port = Port (endpoint c);
          port = (if port \<le> 0 then DefaultPort else port)
      in host @ '':'' @ fmt_d port)"

text \<open>
  \<^verbatim>\<open>func (c *command) setAuthFromEndpoint() error\<close>. The field \<open>auth\<close> is assigned
  whatever the builder returns, also beside an error.
\<close>

definition setAuthFromEndpoint ::
  "world \<Rightarrow> command \<Rightarrow> event list \<Rightarrow> error option \<times> command \<times> event list" where
  "setAuthFromEndpoint w c t =
     (let r = DefaultAuthBuilder w t (User (endpoint c))
      in (snd r, c\<lparr>auth := fst r\<rparr>, t @ [EvDefaultAuthBuilder (User (endpoint c)) r]))"

text \<open>
  \<^verbatim>\<open>func (c *command) Start() error\<close>. The call goes through the embedded session
  pointer, and panics when that is nil.
\<close>

definition Start ::
  "world \<Rightarrow> command \<Rightarrow> event list \<Rightarrow> error option outcome \<times> command \<times> event list" where
  "Start w c t =
     (let line = endpointToCommand (command c) (endpoint c)
      in case Session c of
           None \<Rightarrow> (Panic, c, t)
         | Some s \<Rightarrow>
             (let r = Session_Start w t s line
              in (Return r, c, t @ [EvSessionStart s line r])))"

text \<open>\<^verbatim>\<open>func (c *command) Close() error\<close>\<close>

definition Close ::
  "world \<Rightarrow> command \<Rightarrow> event list \<Rightarrow> error option outcome \<times> command \<times> event list" where
  "Close w c t =
     (if \<not> connected c then (Return None, c, t)
      else
        let c1 = c\<lparr>connected := False\<rparr>;
            t1 = t @ [EvStoreConnected False]
        in case Session c1 of
             None \<Rightarrow> (Panic, c1, t1)
           | Some s \<Rightarrow>
               (let se = Session_Close w t1 s;
                    t2 = t1 @ [EvSessionClose s se]
                in case client c1 of
                     None \<Rightarrow> (Panic, c1, t2)
                   | Some cl \<Rightarrow>
                       (let ce = Client_Close w t2 cl
                        in (Return ce, c1, t2 @ [EvClientClose cl ce]))))"

text \<open>
  \<^verbatim>\<open>func (c *command) connect() error\<close>. The statements in the order of the source: the
  guard on \<open>connected\<close>; the default auth when none is set; \<^verbatim>\<open>clientConfig()\<close> and
  \<^verbatim>\<open>hostKeyCallback()\<close> through \<open>c.auth\<close> (a panic when it is still nil), the callback
  stored in the configuration (a panic when the configuration pointer is nil); the dial,
  whose first result is stored in \<open>c.client\<close> before the error is looked at; the new
  session, likewise stored in \<open>c.Session\<close>; the close of the client when the session
  could not be opened; the flag.
\<close>

definition connect ::
  "world \<Rightarrow> command \<Rightarrow> event list \<Rightarrow> error option outcome \<times> command \<times> event list" where
  "connect w c t =
     (if connected c then (Return (Some ErrAlreadyConnected), c, t)
      else
        case (if auth c = None then setAuthFromEndpoint w c t else (None, c, t)) of
          (Some err, c1, t1) \<Rightarrow> (Return (Some err), c1, t1)
        | (None, c1, t1) \<Rightarrow>
            (case auth c1 of
               None \<Rightarrow> (Panic, c1, t1)
             | Some a \<Rightarrow>
                 (let cfg = clientConfig w t1 a;
                      t2 = t1 @ [EvClientConfig a cfg];
                      hk = hostKeyCallback w t2 a;
                      t3 = t2 @ [EvHostKeyCallback a hk]
                  in case cfg of
                       None \<Rightarrow> (Panic, c1, t3)
                     | Some config0 \<Rightarrow>
                         (let config = config0\<lparr>HostKeyCallback := fst hk\<rparr>
                          in case snd hk of
                               Some err \<Rightarrow> (Return (Some err), c1, t3)
                             | None \<Rightarrow>
                                 (let addr = getHostWithPort c1;
                                      d = Dial w t3 ''tcp'' addr config;
                                      t4 = t3 @ [EvDial ''tcp'' addr config d];
                                      c2 = c1\<lparr>client := fst d\<rparr>
                                  in case snd d of
                                       Some err \<Rightarrow> (Return (Some err), c2, t4)
                                     | None \<Rightarrow>
                                         (case client c2 of
                                            None \<Rightarrow> (Panic, c2, t4)
                                          | Some cl \<Rightarrow>
                                              (let s = NewSession w t4 cl;
                                                   t5 = t4 @ [EvNewSession cl s];
                                                   c3 = c2\<lparr>Session := fst s\<rparr>
                                               in case snd s of
                                                    Some err \<Rightarrow>
                                                      (let ce = Client_Close w t5 cl
                                                       in (Return (Some err), c3,
                                                           t5 @ [EvClientClose cl ce]))
                                                  | None \<Rightarrow>
                                                      (Return None, c3\<lparr>connected := True\<rparr>,
                                                       t5 @ [EvStoreConnected True]))))))))"

text \<open>
  \<^verbatim>\<open>func (r *runner) Command(cmd string, ep transport.Endpoint, auth transport.AuthMethod)
  (common.Command, error)\<close>. The error that \<open>setAuth\<close> returns is not looked at: the call
  is a statement of its own, \<^verbatim>\<open>c.setAuth(auth)\<close>.
\<close>

definition Command ::
  "world \<Rightarrow> string \<Rightarrow> Endpoint \<Rightarrow> transport_AuthMethod option \<Rightarrow> event list
     \<Rightarrow> (command option \<times> error option) outcome \<times> event list" where
  "Command w cmd ep a t =
     (let c = \<lparr>Session = None, connected = False, command = cmd, endpoint = ep,
               client = None, auth = None\<rparr>;
          c = (case a of None \<Rightarrow> c | Some a' \<Rightarrow> snd (setAuth c a'))
      in case connect w c t of
           (Panic, c', t') \<Rightarrow> (Panic, t')
         | (Return (Some err), c', t') \<Rightarrow> (Return (None, Some err), t')
         | (Return None, c', t') \<Rightarrow> (Return (Some c', None), t'))"

subsection \<open>The statements of connect, from a given one onwards\<close>

text \<open>
  Three cuts through the body of \<open>connect\<close>, used to reason about it one part at a
  time: from the first use of the resolved auth method, from the dial, and from the
  opening of the session. Lemma \<open>connect_stages\<close> shows that \<open>connect\<close> is their
  composition, by unfolding alone.
\<close>

definition connect_open_session ::
  "world \<Rightarrow> command \<Rightarrow> event list \<Rightarrow> ssh_Client
     \<Rightarrow> error option outcome \<times> command \<times> event list" where
  "connect_open_session w c2 t4 cl =
     (let s = NewSession w t4 cl;
          t5 = t4 @ [EvNewSession cl s];
          c3 = c2\<lparr>Session := fst s\<rparr>
      in case snd s of
           Some err \<Rightarrow>
             (let ce = Client_Close w t5 cl
              in (Return (Some err), c3,
                  t5 @ [EvClientClose cl ce]))
         | None \<Rightarrow>
             (Return None, c3\<lparr>connected := True\<rparr>,
              t5 @ [EvStoreConnected True]))"

definition connect_dial ::
  "world \<Rightarrow> command \<Rightarrow> event list \<Rightarrow> ssh_ClientConfig
     \<Rightarrow> error option outcome \<times> command \<times> event list" where
  "connect_dial w c1 t3 config =
     (let addr = getHostWithPort c1;
          d = Dial w t3 ''tcp'' addr config;
          t4 = t3 @ [EvDial ''tcp'' addr config d];
          c2 = c1\<lparr>client := fst d\<rparr>
      in case snd d of
           Some err \<Rightarrow> (Return (Some err), c2, t4)
         | None \<Rightarrow>
             (case client c2 of
                None \<Rightarrow> (Panic, c2, t4)
              | Some cl \<Rightarrow> connect_open_session w c2 t4 cl))"

definition connect_config ::
  "world \<Rightarrow> command \<Rightarrow> event list \<Rightarrow> error option outcome \<times> command \<times> event list" where
  "connect_config w c1 t1 =
     (case auth c1 of
        None \<Rightarrow> (Panic, c1, t1)
      | Some a \<Rightarrow>
          (let cfg = clientConfig w t1 a;
               t2 = t1 @ [EvClientConfig a cfg];
               hk = hostKeyCallback w t2 a;
               t3 = t2 @ [EvHostKeyCallback a hk]
           in case cfg of
                None \<Rightarrow> (Panic, c1, t3)
              | Some config0 \<Rightarrow>
                  (let config = config0\<lparr>HostKeyCallback := fst hk\<rparr>
                   in case snd hk of
                        Some err \<Rightarrow> (Return (Some err), c1, t3)
                      | None \<Rightarrow> connect_dial w c1 t3 config)))"

subsection \<open>Concrete collaborators and inputs\<close>

text \<open>
  A fake of the collaborators in which every call succeeds, except that both close calls
  report an error; variants of it fail at one call. The endpoint and the command are
  those of the scenario of the specification.
\<close>

definition fake_world :: world where
  "fake_world =
     \<lparr>DefaultAuthBuilder = (\<lambda>t user. (Some (AuthMethodRef 0), None)),
      clientConfig = (\<lambda>t a. Some \<lparr>ConfigRef = 0, HostKeyCallback = None\<rparr>),
      hostKeyCallback = (\<lambda>t a. (Some (HostKeyCallbackRef 0), None)),
      Dial = (\<lambda>t net addr cfg. (Some (ClientRef 0), None)),
      NewSession = (\<lambda>t cl. (Some (SessionRef 0), None)),
      Session_Start = (\<lambda>t s line. None),
      Session_Close = (\<lambda>t s. Some (ErrOther 1)),
      Client_Close = (\<lambda>t cl. Some (ErrOther 2))\<rparr>"

definition fake_world_no_session :: world where
  "fake_world_no_session = fake_world\<lparr>NewSession := (\<lambda>t cl. (None, Some (ErrOther 7)))\<rparr>"

definition fake_world_no_agent :: world where
  "fake_world_no_agent = fake_world\<lparr>DefaultAuthBuilder := (\<lambda>t user. (None, Some (ErrOther 9)))\<rparr>"

definition example_endpoint :: Endpoint where
  "example_endpoint =
     \<lparr>Host = ''example.com'', Port = 0, User = ''git'', Path = ''/repo.git''\<rparr>"

definition new_command :: "string \<Rightarrow> Endpoint \<Rightarrow> command" where
  "new_command cmd ep =
     \<lparr>Session = None, connected = False, command = cmd, endpoint = ep,
      client = None, auth = None\<rparr>"

definition example_command :: command where
  "example_command = new_command ''git-upload-pack'' example_endpoint"

text \<open>The session and the trace that \<open>connect\<close> leaves behind in \<open>fake_world\<close>.\<close>

definition example_connected :: command where
  "example_connected =
     \<lparr>Session = Some (SessionRef 0), connected = True, command = ''git-upload-pack'',
      endpoint = example_endpoint, client = Some (ClientRef 0),
      auth = Some (AuthMethodRef 0)\<rparr>"

definition example_trace :: "event list" where
  "example_trace =
     [EvDefaultAuthBuilder ''git'' (Some (AuthMethodRef 0), None),
      EvClientConfig (AuthMethodRef 0) (Some \<lparr>ConfigRef = 0, HostKeyCallback = None\<rparr>),
      EvHostKeyCallback (AuthMethodRef 0) (Some (HostKeyCallbackRef 0), None),
      EvDial ''tcp'' ''example.com:22''
        \<lparr>ConfigRef = 0, HostKeyCallback = Some (HostKeyCallbackRef 0)\<rparr>
        (Some (ClientRef 0), None),
      EvNewSession (ClientRef 0) (Some (SessionRef 0), None),
      EvStoreConnected True]"

section \<open>Properties of aws/fetch/helpers.go\<close>

subsection \<open>The loop of sliceOfSlice\<close>

lemma add_int_no_wrap:
  "- (2 ^ 63) \<le> a + b \<Longrightarrow> a + b < 2 ^ 63 \<Longrightarrow> add_int a b = a + b"
  unfolding add_int_def sint_sbintrunc' by (simp add: signed_take_bit_int_eq_self)

lemma sliceOfSlice_loop_exit:
  "int (length xs) \<le> i \<Longrightarrow> sliceOfSlice_loop xs m i res = Some (Return res)"
  by (subst sliceOfSlice_loop.simps) simp

text \<open>
  From an index \<open>k\<close> inside the slice the loop returns, and appends chunks that make up
  the rest of the slice. The index is either zero or a multiple of a step smaller than
  the length, which keeps \<open>i + maxLength\<close> below \<open>2 ^ 63\<close>: no addition wraps.
\<close>

lemma sliceOfSlice_loop_chunks:
  fixes xs :: "'a list"
  assumes m: "0 < m" "m < 2 ^ 63" and n: "length xs < 2 ^ 62"
  shows "k < length xs \<Longrightarrow> k = 0 \<or> m < int (length xs) \<Longrightarrow>
    \<exists>chunks. sliceOfSlice_loop xs m (int k) res = Some (Return (res @ chunks)) \<and>
      concat chunks = drop k xs \<and> chunks \<noteq> [] \<and>
      (\<forall>c\<in>set chunks. c \<noteq> [] \<and> int (length c) \<le> m) \<and>
      (\<forall>c\<in>set (butlast chunks). int (length c) = m)"
proof (induction "length xs - k" arbitrary: k res rule: less_induct)
  case less
  let ?n = "int (length xs)"
  have kn: "int k < ?n" using less.prems(1) by simp
  have n62: "?n < 2 ^ 62" using n by (simp flip: of_nat_less_iff)
  have bound: "int k + m < 2 ^ 63"
    using less.prems(2) kn n62 m by auto
  have nowrap: "add_int (int k) m = int k + m"
    using bound m by (intro add_int_no_wrap) auto
  show ?case
  proof (cases "int k + m < ?n")
    case True
    let ?c = "take (nat m) (drop k xs)"
    let ?k' = "k + nat m"
    have k': "?k' < length xs" using True m by linarith
    have ik': "int ?k' = int k + m" using m by simp
    have chunk: "slice_lo_hi xs (int k) (int k + m) = Return ?c"
      using True m by (simp add: slice_lo_hi_def)
    have step: "sliceOfSlice_loop xs m (int k) res =
                sliceOfSlice_loop xs m (int ?k') (res @ [?c])"
      using less.prems(1) True
      by (subst sliceOfSlice_loop.simps) (simp add: nowrap chunk ik' del: of_nat_add)
    have mn: "m < ?n" using True by linarith
    have "length xs - ?k' < length xs - k" using k' m by linarith
    from less.hyps[OF this k', of "res @ [?c]"] mn
    obtain chunks where ch:
      "sliceOfSlice_loop xs m (int ?k') (res @ [?c]) = Some (Return ((res @ [?c]) @ chunks))"
      "concat chunks = drop ?k' xs" "chunks \<noteq> []"
      "\<forall>c\<in>set chunks. c \<noteq> [] \<and> int (length c) \<le> m"
      "\<forall>c\<in>set (butlast chunks). int (length c) = m"
      by blast
    have lenc: "int (length ?c) = m" using True m by simp
    have cne: "?c \<noteq> []" using lenc m by auto
    have "drop ?k' xs = drop (nat m) (drop k xs)"
      by (simp add: add.commute)
    then have cc: "concat (?c # chunks) = drop k xs"
      using ch(2) by (simp del: drop_drop)
    show ?thesis
      apply (rule exI[of _ "?c # chunks"])
      using step ch cc lenc cne by (simp del: of_nat_add)
  next
    case False
    have chunk: "slice_lo xs (int k) = Return (drop k xs)"
      using kn by (simp add: slice_lo_def)
    have step: "sliceOfSlice_loop xs m (int k) res = Some (Return (res @ [drop k xs]))"
      apply (subst sliceOfSlice_loop.simps)
      using False less.prems(1) by (simp add: nowrap chunk sliceOfSlice_loop_exit)
    have "int (length (drop k xs)) \<le> m"
      using False less.prems(1) by (simp add: of_nat_diff)
    moreover have "drop k xs \<noteq> []" using less.prems(1) by simp
    ultimately show ?thesis
      apply (intro exI[of _ "[drop k xs]"])
      using step by simp
  qed
qed

text \<open>
  Claim C9. For every input slice and every maxLength greater than zero, sliceOfSlice
  returns chunks whose concatenation, in order, is the input slice; every chunk has at
  most maxLength elements (and at least one), and every chunk except possibly the last has
  exactly maxLength elements. For a maxLength of zero or less, or an empty input, it
  returns an empty result. maxLength ranges over all Go ints; the slice has fewer than
  \<open>2 ^ 62\<close> elements, as every slice of eight-byte pointers in a 64-bit address space has.
\<close>

theorem sliceOfSlice_chunks:
  fixes xs :: "'a list" and maxLength :: "64 word"
  assumes "length xs < 2 ^ 62"
  shows "(0 < sint maxLength \<longrightarrow>
            (\<exists>chunks. sliceOfSlice xs maxLength = Some (Return chunks) \<and>
               concat chunks = xs \<and>
               (\<forall>c\<in>set chunks. c \<noteq> [] \<and> int (length c) \<le> sint maxLength) \<and>
               (\<forall>c\<in>set (butlast chunks). int (length c) = sint maxLength))) \<and>
         (sint maxLength \<le> 0 \<or> xs = [] \<longrightarrow> sliceOfSlice xs maxLength = Some (Return []))"
proof (intro conjI impI)
  assume pos: "0 < sint maxLength"
  show "\<exists>chunks. sliceOfSlice xs maxLength = Some (Return chunks) \<and>
               concat chunks = xs \<and>
               (\<forall>c\<in>set chunks. c \<noteq> [] \<and> int (length c) \<le> sint maxLength) \<and>
               (\<forall>c\<in>set (butlast chunks). int (length c) = sint maxLength)"
  proof (cases "xs = []")
    case True
    with pos show ?thesis by (simp add: sliceOfSlice_def)
  next
    case False
    have "sint maxLength < 2 ^ (LENGTH(64) - 1)" by (rule sint_lt)
    then have lt: "sint maxLength < 2 ^ 63" by simp
    from False have k: "(0::nat) < length xs" by simp
    from sliceOfSlice_loop_chunks[OF pos lt assms k, of "[]"]
    obtain chunks where
      "sliceOfSlice_loop xs (sint maxLength) 0 [] = Some (Return chunks)"
      "concat chunks = xs"
      "\<forall>c\<in>set chunks. c \<noteq> [] \<and> int (length c) \<le> sint maxLength"
      "\<forall>c\<in>set (butlast chunks). int (length c) = sint maxLength"
      by auto
    with pos False show ?thesis
      by (intro exI[of _ chunks]) (simp add: sliceOfSlice_def)
  qed
next
  assume "sint maxLength \<le> 0 \<or> xs = []"
  then show "sliceOfSlice xs maxLength = Some (Return [])"
    by (auto simp: sliceOfSlice_def)
qed

theorem sliceOfSlice_chunks_witness:
  "length [1, 2, 3, 4, 5 :: nat] < 2 ^ 62 \<and> 0 < sint (2 :: 64 word) \<and>
   sliceOfSlice [1, 2, 3, 4, 5 :: nat] 2 = Some (Return [[1, 2], [3, 4], [5]]) \<and>
   (\<exists>chunks. sliceOfSlice [1, 2, 3, 4, 5 :: nat] 2 = Some (Return chunks) \<and>
      concat chunks = [1, 2, 3, 4, 5]) \<and>
   sint (- 1 :: 64 word) \<le> 0 \<and>
   sliceOfSlice [1, 2, 3, 4, 5 :: nat] (- 1) = Some (Return [])"
proof -
  have h: "length [1, 2, 3, 4, 5 :: nat] < 2 ^ 62" by simp
  have e: "sliceOfSlice [1, 2, 3, 4, 5 :: nat] 2 = Some (Return [[1, 2], [3, 4], [5]])"
    by code_simp
  have a: "sliceOfSlice [1, 2, 3, 4, 5 :: nat] (- 1) = Some (Return [])"
    using sliceOfSlice_chunks[OF h, of "- 1"] by simp
  have b: "\<exists>chunks. sliceOfSlice [1, 2, 3, 4, 5 :: nat] 2 = Some (Return chunks) \<and>
      concat chunks = [1, 2, 3, 4, 5]"
    using sliceOfSlice_chunks[OF h, of 2] by auto
  show ?thesis using a b e by simp
qed

subsection \<open>pluralizeIfNeeded\<close>

text \<open>
  Claim C10. For every string and every count, pluralizeIfNeeded returns the string with
  an "s" appended if and only if the count is greater than one; otherwise it returns the
  string unchanged, and in particular the count zero is treated as singular.
\<close>

theorem pluralizeIfNeeded_iff:
  "(pluralizeIfNeeded str n = str @ ''s'' \<longleftrightarrow> 1 < n) \<and>
   (pluralizeIfNeeded str n = str \<longleftrightarrow> n \<le> 1) \<and>
   pluralizeIfNeeded str 0 = str"
  by (simp add: pluralizeIfNeeded_def)

section \<open>Properties of plumbing/transport/ssh/common.go\<close>

subsection \<open>Decimal numerals\<close>

lemma digits_table:
  "\<forall>d\<in>set [0..<10]. digit_value (digit d) = d \<and> digit d \<in> set ''0123456789'' \<and>
      (0 < d \<longrightarrow> digit d \<noteq> CHR ''0'')"
  by code_simp

lemma digit_value_digit: "d < 10 \<Longrightarrow> digit_value (digit d) = d"
  using digits_table by simp

lemma decimal_value_snoc:
  "decimal_value (s @ [ch]) = 10 * decimal_value s + digit_value ch"
  by (simp add: decimal_value_def)

text \<open>What \<open>decimal\<close> prints reads back as the number printed.\<close>

lemma decimal_value_decimal: "decimal_value (decimal n) = n"
proof (induction n rule: decimal.induct)
  case (1 n)
  show ?case
  proof (cases "n < 10")
    case True
    then show ?thesis
      by (subst decimal.simps) (simp add: decimal_value_def digit_value_digit)
  next
    case False
    with 1 have "decimal_value (decimal (n div 10)) = n div 10" by simp
    with False show ?thesis
      by (subst decimal.simps) (simp add: decimal_value_snoc digit_value_digit)
  qed
qed

lemma digit_in_digits: "d < 10 \<Longrightarrow> digit d \<in> set ''0123456789''"
  unfolding digit_def by (rule nth_mem) simp

lemma decimal_digits: "set (decimal n) \<subseteq> set ''0123456789''"
proof (induction n rule: decimal.induct)
  case (1 n)
  show ?case
  proof (cases "n < 10")
    case True
    then show ?thesis
      using digit_in_digits[of n] by (subst decimal.simps) simp
  next
    case False
    with 1 have "set (decimal (n div 10)) \<subseteq> set ''0123456789''" by simp
    moreover have "digit (n mod 10) \<in> set ''0123456789''"
      by (rule digit_in_digits) simp
    ultimately show ?thesis using False
      by (subst decimal.simps) simp
  qed
qed

lemma decimal_22: "decimal 22 = ''22''"
  by (simp add: decimal.simps digit_def)

lemma decimal_8080: "decimal 8080 = ''8080''"
  by (simp add: decimal.simps digit_def)

subsection \<open>The endpoint resolver\<close>

text \<open>
  Claim C6. For every endpoint, the resolved dial address is the host, a colon, and the
  decimal numeral of a port: the endpoint's own port when that is positive, the default
  port 22 when it is unset (zero) or negative. The text after the colon consists of
  decimal digits and reads back as that port number.
\<close>

theorem getHostWithPort_default_port:
  "getHostWithPort c =
     Host (endpoint c) @ '':'' @
     decimal (nat (if 0 < Port (endpoint c) then Port (endpoint c) else 22)) \<and>
   DefaultPort = 22 \<and>
   set (drop (length (Host (endpoint c)) + 1) (getHostWithPort c)) \<subseteq> set ''0123456789'' \<and>
   decimal_value (drop (length (Host (endpoint c)) + 1) (getHostWithPort c)) =
     nat (if 0 < Port (endpoint c) then Port (endpoint c) else 22)"
  using decimal_digits[of "nat (Port (endpoint c))"] decimal_digits[of 22]
  by (simp add: getHostWithPort_def DefaultPort_def fmt_d_def Let_def decimal_value_decimal)

theorem getHostWithPort_default_port_witness:
  "getHostWithPort (example_command\<lparr>endpoint := example_endpoint\<lparr>Port := 8080\<rparr>\<rparr>) =
     ''example.com:8080'' \<and>
   getHostWithPort example_command = ''example.com:22'' \<and>
   getHostWithPort (example_command\<lparr>endpoint := example_endpoint\<lparr>Port := - 5\<rparr>\<rparr>) =
     ''example.com:22''"
  using getHostWithPort_default_port
          [of "example_command\<lparr>endpoint := example_endpoint\<lparr>Port := 8080\<rparr>\<rparr>", THEN conjunct1]
        getHostWithPort_default_port [of example_command, THEN conjunct1]
        getHostWithPort_default_port
          [of "example_command\<lparr>endpoint := example_endpoint\<lparr>Port := - 5\<rparr>\<rparr>", THEN conjunct1]
  by (simp add: example_command_def new_command_def example_endpoint_def
      decimal_22 decimal_8080)

lemma example_address:
  "getHostWithPort (c\<lparr>endpoint := example_endpoint\<rparr>) = ''example.com:22''"
  by (simp add: getHostWithPort_def example_endpoint_def DefaultPort_def fmt_d_def decimal_22)

text \<open>
  Claim C7. For every command name and endpoint path, the formatted remote command line
  is the command name, one space, and the path between two single quotes, with nothing
  after the closing quote: the formatting adds exactly two quote characters. For the
  endpoint example.com, port 0, user git, path /repo.git and the command git-upload-pack
  the line is git-upload-pack '/repo.git' and the dial address is example.com:22. The
  path is not escaped: a single quote inside it is copied as it is.
\<close>

theorem endpointToCommand_quotes_path:
  "endpointToCommand cmd ep = cmd @ '' '' @ [CHR 0x27] @ Path ep @ [CHR 0x27] \<and>
   count_list (endpointToCommand cmd ep) (CHR 0x27) =
     count_list cmd (CHR 0x27) + count_list (Path ep) (CHR 0x27) + 2 \<and>
   endpointToCommand ''git-upload-pack''
       \<lparr>Host = ''example.com'', Port = 0, User = ''git'', Path = ''/repo.git''\<rparr> =
     ''git-upload-pack '' @ [CHR 0x27] @ ''/repo.git'' @ [CHR 0x27] \<and>
   getHostWithPort
       (c\<lparr>endpoint :=
           \<lparr>Host = ''example.com'', Port = 0, User = ''git'', Path = ''/repo.git''\<rparr>\<rparr>) =
     ''example.com:22'' \<and>
   endpointToCommand ''git-upload-pack'' (ep\<lparr>Path := ''/a'' @ [CHR 0x27] @ ''b.git''\<rparr>) =
     ''git-upload-pack '' @ [CHR 0x27] @ ''/a'' @ [CHR 0x27] @ ''b.git'' @ [CHR 0x27]"
  using example_address[of c]
  by (simp add: endpointToCommand_def quote_def example_endpoint_def)

subsection \<open>connect, part by part\<close>

lemma connect_stages:
  "connect w c t =
     (if connected c then (Return (Some ErrAlreadyConnected), c, t)
      else
        case (if auth c = None then setAuthFromEndpoint w c t else (None, c, t)) of
          (Some err, c1, t1) \<Rightarrow> (Return (Some err), c1, t1)
        | (None, c1, t1) \<Rightarrow> connect_config w c1 t1)"
  unfolding connect_def connect_config_def connect_dial_def connect_open_session_def ..

subsection \<open>What each part appends to the trace\<close>

lemma open_session_trace:
  "\<exists>new. snd (snd (connect_open_session w c t cl)) = t @ new \<and>
      filter isDefaultAuthBuilder new = []"
  by (simp add: connect_open_session_def Let_def isDefaultAuthBuilder_def split: option.split)

lemma dial_trace:
  "\<exists>new. snd (snd (connect_dial w c t config)) = t @ new \<and>
      filter isDefaultAuthBuilder new = []"
proof -
  let ?d = "Dial w t ''tcp'' (getHostWithPort c) config"
  let ?ev = "EvDial ''tcp'' (getHostWithPort c) config ?d"
  have ev: "\<not> isDefaultAuthBuilder ?ev" by (simp add: isDefaultAuthBuilder_def)
  show ?thesis
  proof (cases "snd ?d = None \<and> fst ?d \<noteq> None")
    case True
    then obtain cl where cl: "fst ?d = Some cl" by auto
    from open_session_trace[of w "c\<lparr>client := fst ?d\<rparr>" "t @ [?ev]" cl]
    obtain new where "snd (snd (connect_open_session w (c\<lparr>client := fst ?d\<rparr>) (t @ [?ev]) cl)) = t @ [?ev] @ new"
      "filter isDefaultAuthBuilder new = []" by auto
    with True cl ev show ?thesis
      by (intro exI[of _ "?ev # new"]) (simp add: connect_dial_def Let_def)
  next
    case False
    with ev show ?thesis
      by (intro exI[of _ "[?ev]"]) (auto simp: connect_dial_def Let_def split: option.split)
  qed
qed

lemma config_trace:
  "\<exists>new. snd (snd (connect_config w c t)) = t @ new \<and>
      filter isDefaultAuthBuilder new = []"
proof (cases "auth c")
  case None
  then show ?thesis by (simp add: connect_config_def)
next
  case (Some a)
  let ?cfg = "clientConfig w t a"
  let ?e1 = "EvClientConfig a ?cfg"
  let ?hk = "hostKeyCallback w (t @ [?e1]) a"
  let ?e2 = "EvHostKeyCallback a ?hk"
  have ev: "\<not> isDefaultAuthBuilder ?e1" "\<not> isDefaultAuthBuilder ?e2"
    by (simp_all add: isDefaultAuthBuilder_def)
  show ?thesis
  proof (cases "?cfg \<noteq> None \<and> snd ?hk = None")
    case True
    then obtain config0 where c0: "?cfg = Some config0" by auto
    from dial_trace[of w c "t @ [?e1, ?e2]" "config0\<lparr>HostKeyCallback := fst ?hk\<rparr>"]
    obtain new where
      "snd (snd (connect_dial w c (t @ [?e1, ?e2]) (config0\<lparr>HostKeyCallback := fst ?hk\<rparr>)))
         = t @ [?e1, ?e2] @ new"
      "filter isDefaultAuthBuilder new = []" by auto
    with True c0 Some ev show ?thesis
      by (intro exI[of _ "?e1 # ?e2 # new"]) (simp add: connect_config_def Let_def)
  next
    case False
    with Some ev show ?thesis
      by (intro exI[of _ "[?e1, ?e2]"]) (auto simp: connect_config_def Let_def split: option.split)
  qed
qed

lemma connect_trace:
  "\<exists>new. snd (snd (connect w c t)) = t @ new \<and>
     filter isDefaultAuthBuilder new =
       (if \<not> connected c \<and> auth c = None
        then [EvDefaultAuthBuilder (User (endpoint c)) (DefaultAuthBuilder w t (User (endpoint c)))]
        else [])"
proof (cases "connected c")
  case True
  then show ?thesis by (simp add: connect_stages)
next
  case nc: False
  show ?thesis
  proof (cases "auth c")
    case (Some a)
    from config_trace[of w c t] nc Some show ?thesis
      by (simp add: connect_stages)
  next
    case None
    let ?r = "DefaultAuthBuilder w t (User (endpoint c))"
    let ?ev = "EvDefaultAuthBuilder (User (endpoint c)) ?r"
    have ev: "isDefaultAuthBuilder ?ev" by (simp add: isDefaultAuthBuilder_def)
    show ?thesis
    proof (cases "snd ?r")
      case (Some err)
      with nc None ev show ?thesis
        by (intro exI[of _ "[?ev]"]) (simp add: connect_stages setAuthFromEndpoint_def Let_def)
    next
      case noerr: None
      from config_trace[of w "c\<lparr>auth := fst ?r\<rparr>" "t @ [?ev]"]
      obtain new where
        "snd (snd (connect_config w (c\<lparr>auth := fst ?r\<rparr>) (t @ [?ev]))) = t @ [?ev] @ new"
        "filter isDefaultAuthBuilder new = []" by auto
      with nc None noerr ev show ?thesis
        by (intro exI[of _ "?ev # new"]) (simp add: connect_stages setAuthFromEndpoint_def Let_def)
    qed
  qed
qed

lemma connect_builder_calls:
  "filter isDefaultAuthBuilder (drop (length t) (snd (snd (connect w c t)))) =
     (if \<not> connected c \<and> auth c = None
      then [EvDefaultAuthBuilder (User (endpoint c)) (DefaultAuthBuilder w t (User (endpoint c)))]
      else [])"
proof -
  from connect_trace[of w c t] obtain new where
    n: "snd (snd (connect w c t)) = t @ new" and
    f: "filter isDefaultAuthBuilder new =
       (if \<not> connected c \<and> auth c = None
        then [EvDefaultAuthBuilder (User (endpoint c)) (DefaultAuthBuilder w t (User (endpoint c)))]
        else [])" by blast
  show ?thesis unfolding n using f by simp
qed

subsection \<open>A session that cannot be opened\<close>

lemma open_session_failure:
  assumes "connect_open_session w c t cl = (r, c', t @ new)"
      and "EvNewSession cl' (s, Some err) \<in> set new"
  shows "cl' = cl \<and> r = Return (Some err) \<and> connected c' = connected c \<and>
         client c' = client c \<and> endpoint c' = endpoint c \<and>
         new = [EvNewSession cl (s, Some err),
                EvClientClose cl (Client_Close w (t @ [EvNewSession cl (s, Some err)]) cl)]"
proof -
  obtain s0 e0 where ns: "NewSession w t cl = (s0, e0)"
    by (cases "NewSession w t cl")
  show ?thesis
    using assms by (cases e0) (auto simp: connect_open_session_def Let_def ns)
qed

lemma dial_session_failure:
  assumes run: "connect_dial w c t config = (r, c', t @ new)"
      and ev: "EvNewSession cl (s, Some err) \<in> set new"
  shows "r = Return (Some err) \<and> connected c' = connected c \<and>
         client c' = Some cl \<and> endpoint c' = endpoint c \<and>
         new = [EvDial ''tcp'' (getHostWithPort c) config (Some cl, None),
                EvNewSession cl (s, Some err),
                EvClientClose cl (Client_Close w
                  (t @ [EvDial ''tcp'' (getHostWithPort c) config (Some cl, None),
                        EvNewSession cl (s, Some err)]) cl)]"
proof -
  let ?d = "Dial w t ''tcp'' (getHostWithPort c) config"
  let ?ev = "EvDial ''tcp'' (getHostWithPort c) config ?d"
  show ?thesis
  proof (cases "snd ?d = None \<and> fst ?d \<noteq> None")
    case False
    with run have "new = [?ev]"
      by (auto simp: connect_dial_def Let_def split: option.splits)
    with ev show ?thesis by simp
  next
    case True
    then obtain cl0 where cl0: "fst ?d = Some cl0" by auto
    with True have d: "?d = (Some cl0, None)" by (simp add: prod_eq_iff)
    let ?c2 = "c\<lparr>client := fst ?d\<rparr>"
    from True cl0 run have run2: "connect_open_session w ?c2 (t @ [?ev]) cl0 = (r, c', t @ new)"
      by (simp add: connect_dial_def Let_def)
    from open_session_trace[of w ?c2 "t @ [?ev]" cl0] run2
    obtain new' where n: "new = ?ev # new'" by auto
    with run2 have run3: "connect_open_session w ?c2 (t @ [?ev]) cl0 = (r, c', (t @ [?ev]) @ new')"
      by simp
    from ev n have ev': "EvNewSession cl (s, Some err) \<in> set new'" by auto
    from open_session_failure[OF run3 ev'] n cl0 d show ?thesis by simp
  qed
qed

lemma config_session_failure:
  assumes run: "connect_config w c t = (r, c', t @ new)"
      and ev: "EvNewSession cl (s, Some err) \<in> set new"
  shows "r = Return (Some err) \<and> connected c' = connected c \<and>
         client c' = Some cl \<and> endpoint c' = endpoint c \<and>
         (\<exists>pre cfg. list_all isAuthResolution pre \<and>
            new = pre @ [EvDial ''tcp'' (getHostWithPort c) cfg (Some cl, None),
                EvNewSession cl (s, Some err),
                EvClientClose cl (Client_Close w
                  (t @ pre @ [EvDial ''tcp'' (getHostWithPort c) cfg (Some cl, None),
                        EvNewSession cl (s, Some err)]) cl)])"
proof (cases "auth c")
  case None
  with run ev show ?thesis by (simp add: connect_config_def)
next
  case (Some a)
  let ?cfg = "clientConfig w t a"
  let ?e1 = "EvClientConfig a ?cfg"
  let ?hk = "hostKeyCallback w (t @ [?e1]) a"
  let ?e2 = "EvHostKeyCallback a ?hk"
  have net: "list_all isAuthResolution [?e1, ?e2]" by (simp add: isAuthResolution_def)
  show ?thesis
  proof (cases "?cfg \<noteq> None \<and> snd ?hk = None")
    case False
    with run Some have "new = [?e1, ?e2]"
      by (auto simp: connect_config_def Let_def split: option.splits)
    with ev show ?thesis by simp
  next
    case True
    then obtain config0 where c0: "?cfg = Some config0" by auto
    let ?config = "config0\<lparr>HostKeyCallback := fst ?hk\<rparr>"
    from True c0 Some run
    have run2: "connect_dial w c (t @ [?e1, ?e2]) ?config = (r, c', t @ new)"
      by (simp add: connect_config_def Let_def)
    from dial_trace[of w c "t @ [?e1, ?e2]" ?config] run2
    obtain new' where n: "new = [?e1, ?e2] @ new'" by auto
    with run2 have run3: "connect_dial w c (t @ [?e1, ?e2]) ?config = (r, c', (t @ [?e1, ?e2]) @ new')"
      by simp
    from ev n have ev': "EvNewSession cl (s, Some err) \<in> set new'" by auto
    from dial_session_failure[OF run3 ev'] n net show ?thesis
      by (intro conjI exI[of _ "[?e1, ?e2]"] exI[of _ ?config]) simp_all
  qed
qed

text \<open>
  Claim C2. For every session and every behaviour of the collaborators: when a call of
  connect opens a connection and the session channel on it cannot be opened, connect
  returns the error of the channel opening, the last thing it did before returning is the
  close of that same connection, which directly follows the failed channel opening, and
  the connected flag is false. Before the dial, the call only resolved the auth method.
\<close>

theorem connect_closes_client_when_session_fails:
  assumes run: "connect w c t = (r, c', t @ new)"
      and ev: "EvNewSession cl (s, Some err) \<in> set new"
  shows "r = Return (Some err) \<and> \<not> connected c' \<and>
         client c' = Some cl \<and>
         (\<exists>pre cfg. list_all isAuthResolution pre \<and>
            new = pre @ [EvDial ''tcp'' (getHostWithPort c') cfg (Some cl, None),
                EvNewSession cl (s, Some err),
                EvClientClose cl (Client_Close w
                  (t @ pre @ [EvDial ''tcp'' (getHostWithPort c') cfg (Some cl, None),
                        EvNewSession cl (s, Some err)]) cl)])"
proof (cases "connected c")
  case True
  with run ev show ?thesis by (simp add: connect_stages)
next
  case nc: False
  have host: "endpoint c' = endpoint x \<Longrightarrow> getHostWithPort c' = getHostWithPort x" for x
    by (simp add: getHostWithPort_def)
  show ?thesis
  proof (cases "auth c")
    case (Some a)
    with nc run have run2: "connect_config w c t = (r, c', t @ new)"
      by (simp add: connect_stages)
    from config_session_failure[OF run2 ev] nc host[of c] show ?thesis by auto
  next
    case None
    let ?r = "DefaultAuthBuilder w t (User (endpoint c))"
    let ?ev = "EvDefaultAuthBuilder (User (endpoint c)) ?r"
    let ?c1 = "c\<lparr>auth := fst ?r\<rparr>"
    have net: "isAuthResolution ?ev" by (simp add: isAuthResolution_def)
    show ?thesis
    proof (cases "snd ?r")
      case (Some e)
      with nc None run have "new = [?ev]"
        by (auto simp: connect_stages setAuthFromEndpoint_def Let_def)
      with ev show ?thesis by simp
    next
      case noerr: None
      with nc None run have run2: "connect_config w ?c1 (t @ [?ev]) = (r, c', t @ new)"
        by (simp add: connect_stages setAuthFromEndpoint_def Let_def)
      from config_trace[of w ?c1 "t @ [?ev]"] run2
      obtain new' where n: "new = [?ev] @ new'" by auto
      with run2 have run3: "connect_config w ?c1 (t @ [?ev]) = (r, c', (t @ [?ev]) @ new')"
        by simp
      from ev n have ev': "EvNewSession cl (s, Some err) \<in> set new'" by auto
      from config_session_failure[OF run3 ev']
      obtain pre cfg where p: "r = Return (Some err)" "connected c' = connected ?c1"
        "client c' = Some cl" "endpoint c' = endpoint ?c1" "list_all isAuthResolution pre"
        "new' = pre @ [EvDial ''tcp'' (getHostWithPort ?c1) cfg (Some cl, None),
                EvNewSession cl (s, Some err),
                EvClientClose cl (Client_Close w
                  ((t @ [?ev]) @ pre @ [EvDial ''tcp'' (getHostWithPort ?c1) cfg (Some cl, None),
                        EvNewSession cl (s, Some err)]) cl)]"
        by blast
      from p(4) have h: "getHostWithPort ?c1 = getHostWithPort c'"
        by (simp add: getHostWithPort_def)
      from p n nc net show ?thesis unfolding h
        by (intro conjI exI[of _ "?ev # pre"] exI[of _ cfg]) simp_all
    qed
  qed
qed

subsection \<open>A successful connect\<close>

lemma open_session_success:
  assumes "connect_open_session w c t cl = (Return None, c1, t1)"
  shows "connected c1 \<and> client c1 = client c \<and>
         t1 = t @ [EvNewSession cl (Session c1, None), EvStoreConnected True]"
proof -
  obtain s0 e0 where ns: "NewSession w t cl = (s0, e0)"
    by (cases "NewSession w t cl")
  show ?thesis
    using assms by (cases e0) (auto simp: connect_open_session_def Let_def ns)
qed

lemma dial_success:
  assumes "connect_dial w c t config = (Return None, c1, t1)"
  shows "connected c1 \<and>
         (\<exists>cl pre. client c1 = Some cl \<and>
            t1 = pre @ [EvNewSession cl (Session c1, None), EvStoreConnected True])"
proof -
  let ?d = "Dial w t ''tcp'' (getHostWithPort c) config"
  let ?ev = "EvDial ''tcp'' (getHostWithPort c) config ?d"
  from assms obtain cl where cl: "fst ?d = Some cl" and
    run: "connect_open_session w (c\<lparr>client := fst ?d\<rparr>) (t @ [?ev]) cl = (Return None, c1, t1)"
    by (auto simp: connect_dial_def Let_def split: option.splits)
  from open_session_success[OF run] cl show ?thesis by auto
qed

lemma config_success:
  assumes "connect_config w c t = (Return None, c1, t1)"
  shows "connected c1 \<and>
         (\<exists>cl pre. client c1 = Some cl \<and>
            t1 = pre @ [EvNewSession cl (Session c1, None), EvStoreConnected True])"
proof -
  from assms obtain t' config where
    "connect_dial w c t' config = (Return None, c1, t1)"
    by (auto simp: connect_config_def Let_def split: option.splits)
  then show ?thesis by (rule dial_success)
qed

lemma connect_success:
  assumes "connect w c t = (Return None, c1, t1)"
  shows "connected c1 \<and>
         (\<exists>cl pre. client c1 = Some cl \<and>
            t1 = pre @ [EvNewSession cl (Session c1, None), EvStoreConnected True])"
proof -
  from assms obtain c' t' where
    "connect_config w c' t' = (Return None, c1, t1)"
    by (auto simp: connect_stages setAuthFromEndpoint_def Let_def split: option.splits if_splits)
  then show ?thesis by (rule config_success)
qed

text \<open>
  After a successful connect the session holds the connection it dialed and whatever
  channel \<open>NewSession\<close> handed out beside its nil error; when that is a channel, Close on
  the session runs to its end and returns what the connection close returns.
\<close>

lemma Close_after_connect:
  assumes "connect w c t = (Return None, c1, t1)" and "Session c1 = Some s"
  shows "\<exists>cl se. client c1 = Some cl \<and>
           Close w' c1 t' =
             (Return (Client_Close w' (t' @ [EvStoreConnected False, EvSessionClose s se]) cl),
              c1\<lparr>connected := False\<rparr>,
              t' @ [EvStoreConnected False, EvSessionClose s se,
                    EvClientClose cl
                      (Client_Close w' (t' @ [EvStoreConnected False, EvSessionClose s se]) cl)])"
proof -
  from connect_success[OF assms(1)] obtain cl where
    "connected c1" "client c1 = Some cl" by blast
  with assms(2) show ?thesis
    by (simp add: Close_def Let_def)
qed

lemma Command_trace:
  "snd (Command w cmd ep a t) =
   snd (snd (connect w (case a of None \<Rightarrow> new_command cmd ep
                        | Some a' \<Rightarrow> snd (setAuth (new_command cmd ep) a')) t))"
  by (simp add: Command_def new_command_def Let_def split: prod.splits outcome.splits option.splits)

subsection \<open>Concrete runs\<close>

lemmas fake_defs =
  connect_stages connect_config_def connect_dial_def connect_open_session_def
  setAuthFromEndpoint_def fake_world_def fake_world_no_session_def fake_world_no_agent_def
  example_command_def new_command_def example_connected_def example_trace_def Let_def

lemma example_address_record:
  "getHostWithPort \<lparr>Session = s, connected = b, command = cmd, endpoint = example_endpoint,
      client = cl, auth = a\<rparr> = ''example.com:22''"
  using example_address[of "\<lparr>Session = s, connected = b, command = cmd,
      endpoint = example_endpoint, client = cl, auth = a\<rparr>"] by simp

lemma fake_connect:
  "connect fake_world example_command [] = (Return None, example_connected, example_trace)"
  by (simp add: fake_defs example_address_record) (simp add: example_endpoint_def)

lemma fake_connect_no_session:
  "connect fake_world_no_session example_command [] =
     (Return (Some (ErrOther 7)),
      example_connected\<lparr>Session := None, connected := False\<rparr>,
      [] @ butlast (butlast example_trace) @
      [EvNewSession (ClientRef 0) (None, Some (ErrOther 7)),
       EvClientClose (ClientRef 0) (Some (ErrOther 2))])"
  by (simp add: fake_defs example_address_record) (simp add: example_endpoint_def)

theorem connect_closes_client_when_session_fails_witness:
  "fst (connect fake_world_no_session example_command []) = Return (Some (ErrOther 7)) \<and>
   EvNewSession (ClientRef 0) (None, Some (ErrOther 7))
     \<in> set (snd (snd (connect fake_world_no_session example_command []))) \<and>
   last (snd (snd (connect fake_world_no_session example_command []))) =
     EvClientClose (ClientRef 0) (Some (ErrOther 2)) \<and>
   \<not> connected (fst (snd (connect fake_world_no_session example_command []))) \<and>
   client (fst (snd (connect fake_world_no_session example_command []))) = Some (ClientRef 0)"
proof -
  have ev: "EvNewSession (ClientRef 0) (None, Some (ErrOther 7)) \<in>
      set (butlast (butlast example_trace) @
        [EvNewSession (ClientRef 0) (None, Some (ErrOther 7)),
         EvClientClose (ClientRef 0) (Some (ErrOther 2))])"
    by simp
  from connect_closes_client_when_session_fails[OF fake_connect_no_session ev]
  show ?thesis by (simp add: fake_connect_no_session)
qed

subsection \<open>The lifecycle of a session\<close>

text \<open>
  Claim C3. For every session on which a call of connect has succeeded, the connected
  flag is set, and a further call of connect, whatever the collaborators would answer and
  whatever happened in between that left the session as it was, fails with the
  AlreadyConnected error, calls no collaborator, and leaves the flag and every other field
  of the session as the first call left them.
\<close>

theorem connect_twice_AlreadyConnected:
  assumes "connect w c t = (Return None, c1, t1)"
  shows "connected c1 \<and> connect w' c1 t' = (Return (Some ErrAlreadyConnected), c1, t')"
  using connect_success[OF assms] by (simp add: connect_def)

theorem connect_twice_AlreadyConnected_witness:
  "connect fake_world example_command [] = (Return None, example_connected, example_trace) \<and>
   connected example_connected \<and>
   connect fake_world example_connected example_trace =
     (Return (Some ErrAlreadyConnected), example_connected, example_trace)"
  using connect_twice_AlreadyConnected[OF fake_connect, of fake_world example_trace]
  by (simp add: fake_connect)

text \<open>
  Claim C5. For every session whose connected flag is false, as it is on a session that
  was never connected, Close returns no error, calls no collaborator (neither the session
  channel nor the connection is touched: the trace is unchanged) and leaves the session as
  it was.
\<close>

theorem Close_never_connected:
  "\<not> connected c \<Longrightarrow> Close w c t = (Return None, c, t)"
  by (simp add: Close_def)

theorem Close_never_connected_witness:
  "\<not> connected example_command \<and>
   Close fake_world example_command [] = (Return None, example_command, [])"
proof -
  have h: "\<not> connected example_command"
    by (simp add: example_command_def new_command_def)
  from Close_never_connected[OF h, of fake_world "[]"] h show ?thesis by simp
qed

text \<open>
  Claim C4. For every connected session (the flag is set and the session holds its
  channel and its connection, as after a connect that succeeded against collaborators
  that hand out a channel whenever they report no error; see \<open>connect_success\<close>), Close
  does three things in this order: it writes false to the connected flag, it closes the session channel, it
  closes the connection. What the channel close returns is recorded and otherwise unused,
  so the connection is closed whether or not the channel close failed, and the value
  Close returns is what the connection close returned.
\<close>

theorem Close_connected_sequence:
  assumes "connected c" and "Session c = Some s" and "client c = Some cl"
  shows "Close w c t =
    (let se = Session_Close w (t @ [EvStoreConnected False]) s;
         ce = Client_Close w (t @ [EvStoreConnected False, EvSessionClose s se]) cl
     in (Return ce, c\<lparr>connected := False\<rparr>,
         t @ [EvStoreConnected False, EvSessionClose s se, EvClientClose cl ce]))"
  using assms by (simp add: Close_def Let_def)

theorem Close_connected_sequence_witness:
  "connected example_connected \<and> Session example_connected = Some (SessionRef 0) \<and>
   client example_connected = Some (ClientRef 0) \<and>
   Close fake_world example_connected example_trace =
     (Return (Some (ErrOther 2)), example_connected\<lparr>connected := False\<rparr>,
      example_trace @
      [EvStoreConnected False, EvSessionClose (SessionRef 0) (Some (ErrOther 1)),
       EvClientClose (ClientRef 0) (Some (ErrOther 2))])"
proof -
  have h: "connected example_connected" "Session example_connected = Some (SessionRef 0)"
    "client example_connected = Some (ClientRef 0)"
    by (simp_all add: example_connected_def)
  from Close_connected_sequence[OF h, of fake_world example_trace] h
  show ?thesis by (simp add: fake_world_def Let_def)
qed

subsection \<open>Resolving the auth method\<close>

text \<open>
  Claim C8. When Command is given an explicit auth method that satisfies the AuthMethod
  capability set, the default-auth builder is not called at all. When Command is given
  nil, the builder is called exactly once, with the user of the endpoint, and when that
  call returns an error, the error is what connect, and with it Command, returns.
\<close>

theorem default_auth_builder_calls:
  "filter isDefaultAuthBuilder
      (drop (length t) (snd (Command w cmd ep (Some (IsAuthMethod a)) t))) = [] \<and>
   filter isDefaultAuthBuilder (drop (length t) (snd (Command w cmd ep None t))) =
      [EvDefaultAuthBuilder (User ep) (DefaultAuthBuilder w t (User ep))] \<and>
   (snd (DefaultAuthBuilder w t (User ep)) = Some err \<longrightarrow>
      fst (connect w (new_command cmd ep) t) = Return (Some err) \<and>
      fst (Command w cmd ep None t) = Return (None, Some err))"
proof -
  have "fst (connect w (new_command cmd ep) t) = Return (Some err) \<and>
        fst (Command w cmd ep None t) = Return (None, Some err)"
    if e: "snd (DefaultAuthBuilder w t (User ep)) = Some err"
  proof -
    from e have f: "fst (connect w (new_command cmd ep) t) = Return (Some err)"
      by (simp add: connect_stages setAuthFromEndpoint_def Let_def new_command_def)
    moreover obtain r c' t' where run: "connect w (new_command cmd ep) t = (r, c', t')"
      by (cases "connect w (new_command cmd ep) t")
    ultimately have "connect w (new_command cmd ep) t = (Return (Some err), c', t')"
      by simp
    then have "fst (Command w cmd ep None t) = Return (None, Some err)"
      by (simp add: Command_def new_command_def)
    with f show ?thesis by simp
  qed
  then show ?thesis
    by (simp add: Command_trace connect_builder_calls setAuth_def new_command_def)
qed

theorem default_auth_builder_calls_witness:
  "snd (DefaultAuthBuilder fake_world_no_agent [] (User example_endpoint)) =
     Some (ErrOther 9) \<and>
   fst (Command fake_world_no_agent ''git-upload-pack'' example_endpoint None []) =
     Return (None, Some (ErrOther 9)) \<and>
   snd (Command fake_world_no_agent ''git-upload-pack'' example_endpoint None []) =
     [EvDefaultAuthBuilder ''git'' (None, Some (ErrOther 9))]"
proof -
  have h: "snd (DefaultAuthBuilder fake_world_no_agent [] (User example_endpoint)) =
     Some (ErrOther 9)"
    by (simp add: fake_world_no_agent_def fake_world_def)
  have run: "Command fake_world_no_agent ''git-upload-pack'' example_endpoint None [] =
     (Return (None, Some (ErrOther 9)), [EvDefaultAuthBuilder ''git'' (None, Some (ErrOther 9))])"
    by (simp add: Command_def fake_defs) (simp add: example_endpoint_def)
  from default_auth_builder_calls
         [of "[]" fake_world_no_agent "''git-upload-pack''" example_endpoint _ "ErrOther 9"] h run
  show ?thesis by simp
qed

subsection \<open>An auth method of the wrong kind\<close>

text \<open>
  \<open>setAuth\<close> rejects an auth method that does not satisfy the capability set, but
  \<open>Command\<close> does not look at what \<open>setAuth\<close> returns: such an auth method is treated
  exactly as nil.
\<close>

lemma setAuth_rejects:
  "setAuth c (NotAuthMethod x) = (Some ErrInvalidAuthMethod, c)"
  by (simp add: setAuth_def)

lemma Command_NotAuthMethod_as_nil:
  "Command w cmd ep (Some (NotAuthMethod x)) t = Command w cmd ep None t"
  by (simp add: Command_def setAuth_def)

text \<open>
  Claim C1. The claim is that for every non-nil auth argument that does not satisfy the
  AuthMethod capability set, Command fails with the InvalidAuthMethod error before any
  network I/O, without consulting the default-auth builder and without dialing. The code
  does otherwise: with the endpoint example.com, user git, and collaborators that all
  succeed, Command given such an auth method returns a connected session and no error,
  after calling the default-auth builder with the user git and dialing example.com:22.
\<close>

theorem Command_invalid_auth_connects:
  "Command fake_world ''git-upload-pack'' example_endpoint (Some (NotAuthMethod 0)) [] =
     (Return (Some example_connected, None), example_trace) \<and>
   connected example_connected \<and>
   example_trace ! 0 = EvDefaultAuthBuilder ''git'' (Some (AuthMethodRef 0), None) \<and>
   example_trace ! 3 =
     EvDial ''tcp'' ''example.com:22''
       \<lparr>ConfigRef = 0, HostKeyCallback = Some (HostKeyCallbackRef 0)\<rparr>
       (Some (ClientRef 0), None)"
proof -
  have "Command fake_world ''git-upload-pack'' example_endpoint (Some (NotAuthMethod 0)) [] =
     (Return (Some example_connected, None), example_trace)"
    using fake_connect
    by (simp add: Command_def setAuth_def example_command_def new_command_def)
  then show ?thesis
    by (simp add: example_connected_def example_trace_def)
qed

end
